theory Spec2Isabelle
  imports Complex_Main "HOL-Library.Log_Nat"
begin

section \<open>Order store\<close>

text \<open>
  The order documents of \<^verbatim>\<open>src/models/order.model.js\<close>, the handlers of
  \<^verbatim>\<open>payment.controller.js\<close> (part_009), \<^verbatim>\<open>webhook.controller.js\<close> (part_010) and
  \<^verbatim>\<open>order.controller.js\<close>, and the money helpers of \<^verbatim>\<open>razorpay.config.js\<close>.

  A JavaScript value that may be \<^verbatim>\<open>undefined\<close> is an \<open>option\<close>; \<open>None\<close> is
  \<^verbatim>\<open>undefined\<close>. A string is falsy when it is undefined or empty.
\<close>

definition truthy :: "string option \<Rightarrow> bool" where
  "truthy v = (case v of None \<Rightarrow> False | Some s \<Rightarrow> s \<noteq> [])"

text \<open>
  \<^verbatim>\<open>a || b\<close> on possibly undefined strings.
\<close>

definition js_or :: "string option \<Rightarrow> string option \<Rightarrow> string option" where
  "js_or a b = (if truthy a then a else b)"

text \<open>
  The nested path \<^verbatim>\<open>paymentResult\<close> of the order schema (order.model.js, lines 48-55)
  declares exactly these six fields; \<^verbatim>\<open>update_time\<close> holds the timestamp that the
  handlers take from \<^verbatim>\<open>Date.now()\<close>.
\<close>

record payment_result =
  pr_id :: "string option"
  pr_status :: "string option"
  pr_update_time :: "nat option"
  pr_email_address :: "string option"
  pr_razorpay_order_id :: "string option"
  pr_razorpay_payment_id :: "string option"

text \<open>
  The object literals that the handlers assign to \<^verbatim>\<open>order.paymentResult\<close> carry, in
  some handlers, keys that the schema does not declare (\<^verbatim>\<open>error_code\<close>,
  \<^verbatim>\<open>error_description\<close>, \<^verbatim>\<open>method\<close>).
\<close>

record payment_result_literal = payment_result +
  pr_error_code :: "string option"
  pr_error_description :: "string option"
  pr_method :: "string option"

text \<open>
  Assignment to a nested path of a Mongoose document sets the declared sub-paths one by
  one; the schema is in strict mode (the default, the schema options of order.model.js
  line 142 only set the timestamps), so keys that the schema does not declare are
  discarded and are neither held by the document nor saved.
\<close>

definition castPaymentResult :: "payment_result_literal \<Rightarrow> payment_result" where
  "castPaymentResult l = payment_result.truncate l"

definition emptyPaymentResult :: payment_result where
  "emptyPaymentResult = \<lparr>pr_id = None, pr_status = None, pr_update_time = None,
     pr_email_address = None, pr_razorpay_order_id = None, pr_razorpay_payment_id = None\<rparr>"

text \<open>
  The nested path \<^verbatim>\<open>refundDetails\<close> (order.model.js, lines 133-141). An amount is a
  JavaScript number, a finite double; it is modelled by the rational it denotes.
\<close>

record refund_details =
  rd_amount :: "rat option"
  rd_id :: "string option"
  rd_status :: "string option"
  rd_processedAt :: "nat option"
  rd_processedBy :: "string option"
  rd_reason :: "string option"
  rd_razorpayRefundId :: "string option"

text \<open>
  The order document: the paths of the schema that the handlers below read or write.
  Properties that a handler sets on the document but that the schema does not declare
  (\<^verbatim>\<open>cancellationReason\<close>, \<^verbatim>\<open>cancelledAt\<close>) are not part of the document's
  state.
\<close>

record order =
  oid :: string
  user :: string
  orderNumber :: string
  paymentMethod :: string
  paymentResult :: payment_result
  totalPrice :: rat
  isPaid :: bool
  paidAt :: "nat option"
  deliveredAt :: "nat option"
  status :: string
  razorpayOrderId :: "string option"
  refundStatus :: "string option"
  refundDetails :: refund_details

record notification =
  n_user :: string
  n_type :: string
  n_order :: string

text \<open>
  The state that the handlers act on: the collection of orders, in the collection's
  natural order, and the notifications delivered to users so far, oldest first.
\<close>

record db =
  orders :: "order list"
  notifications :: "notification list"

text \<open>
  What a handler passes to \<^verbatim>\<open>next\<close>: an \<^verbatim>\<open>ApiError\<close> with its HTTP status and
  message, or an exception that the handler caught (a \<^verbatim>\<open>TypeError\<close>, a failed gateway
  call).
\<close>

datatype api_error = ApiError nat string | Thrown string

text \<open>\<^verbatim>\<open>Order.findById(id)\<close>: the first document with that \<^verbatim>\<open>_id\<close>, or null.\<close>

definition findById :: "string \<Rightarrow> db \<Rightarrow> order option" where
  "findById i s = find (\<lambda>d. oid d = i) (orders s)"

text \<open>
  \<^verbatim>\<open>Order.findById\<close> casts the id to an \<^verbatim>\<open>ObjectId\<close> before it queries, and rejects
  with a \<^verbatim>\<open>CastError\<close>, which every handler passes to \<^verbatim>\<open>next\<close>, when the id is not
  one (24 hexadecimal digits). The ids of the stored orders are \<^verbatim>\<open>ObjectId\<close>s that the
  store assigned, so the cast fails only for ids under which no order is found.
  \<open>missingOrder i\<close> is what a handler ends with when \<open>findById i\<close> gives no order:
  the cast error, or the handler's own 404 for a well-formed id.
\<close>

definition isObjectIdString :: "string \<Rightarrow> bool" where
  "isObjectIdString i =
     (length i = 24 \<and> list_all (\<lambda>c. c \<in> set ''0123456789abcdefABCDEF'') i)"

definition missingOrder :: "string \<Rightarrow> api_error" where
  "missingOrder i =
     (if isObjectIdString i then ApiError 404 ''Order not found'' else Thrown ''CastError'')"

text \<open>
  \<^verbatim>\<open>Order.findOne({ razorpayOrderId: v })\<close>: the first document whose field equals
  \<open>v\<close>; an undefined \<open>v\<close> is sent as null and matches the documents without the field.
\<close>

definition findOneByRazorpayOrderId :: "string option \<Rightarrow> db \<Rightarrow> order option" where
  "findOneByRazorpayOrderId v s = find (\<lambda>d. razorpayOrderId d = v) (orders s)"

text \<open>\<^verbatim>\<open>Order.findOne({ 'paymentResult.razorpay_payment_id': v })\<close>.\<close>

definition findOneByPaymentId :: "string option \<Rightarrow> db \<Rightarrow> order option" where
  "findOneByPaymentId v s =
     find (\<lambda>d. pr_razorpay_payment_id (paymentResult d) = v) (orders s)"

text \<open>\<^verbatim>\<open>order.save()\<close>: the stored document with the order's \<^verbatim>\<open>_id\<close> is replaced.\<close>

definition save :: "order \<Rightarrow> db \<Rightarrow> db" where
  "save d s = s\<lparr>orders := map (\<lambda>x. if oid x = oid d then d else x) (orders s)\<rparr>"

text \<open>
  Modelled from the spec: \<^verbatim>\<open>sendUserNotification\<close> of \<^verbatim>\<open>utils/responseHandler.js\<close>
  is not among the sources. The spec's Notification Dispatcher is "told notify user X of
  event Y": the call delivers one notification of the given type, about the given order,
  to the given user.
\<close>

definition sendUserNotification :: "string \<Rightarrow> string \<Rightarrow> string \<Rightarrow> db \<Rightarrow> db" where
  "sendUserNotification u ty ord s =
     s\<lparr>notifications := notifications s @ [\<lparr>n_user = u, n_type = ty, n_order = ord\<rparr>]\<rparr>"

text \<open>
  \<^verbatim>\<open>User.findByIdAndUpdate(u, { $push: { notifications: {...} } })\<close>: the same
  delivery, written inline by some handlers.
\<close>

definition pushNotification :: "string \<Rightarrow> string \<Rightarrow> string \<Rightarrow> db \<Rightarrow> db" where
  "pushNotification u ty ord s =
     s\<lparr>notifications := notifications s @ [\<lparr>n_user = u, n_type = ty, n_order = ord\<rparr>]\<rparr>"

section \<open>Order controller\<close>

text \<open>\<^verbatim>\<open>markCodOrderAsPaid\<close> (order.controller.js, lines 1121-1152).\<close>

definition markCodOrderAsPaid :: "nat \<Rightarrow> string \<Rightarrow> db \<Rightarrow> (api_error + order) \<times> db" where
  "markCodOrderAsPaid now i s =
     (case findById i s of
        None \<Rightarrow> (Inl (missingOrder i), s)
      | Some ord \<Rightarrow>
          if paymentMethod ord \<noteq> ''cod'' then (Inl (ApiError 400 ''Order is not a COD order''), s)
          else if isPaid ord then (Inl (ApiError 400 ''Order is already marked as paid''), s)
          else
            let ord' = ord\<lparr>isPaid := True, paidAt := Some now,
                   paymentResult := castPaymentResult
                     \<lparr>pr_id = Some ''COD'', pr_status = Some ''paid'',
                      pr_update_time = Some now, pr_email_address = Some [],
                      pr_razorpay_order_id = None, pr_razorpay_payment_id = None,
                      pr_error_code = None, pr_error_description = None,
                      pr_method = Some ''cod''\<rparr>\<rparr>;
                s1 = save ord' s;
                s2 = sendUserNotification (user ord') ''payment_successful'' (oid ord') s1
            in (Inr ord', s2))"

text \<open>The authenticated requester, \<^verbatim>\<open>req.user\<close>.\<close>

record req_user =
  u_id :: string
  u_role :: string
  u_email :: "string option"

definition validStatuses :: "string list" where
  "validStatuses = [''processing'', ''shipped'', ''delivered'', ''cancelled'']"

text \<open>
  \<^verbatim>\<open>updateOrderStatus\<close> (order.controller.js, lines 345-393), the status-transition
  operation. The requested status is \<^verbatim>\<open>req.body.status\<close>.
\<close>

definition updateOrderStatus ::
  "nat \<Rightarrow> string \<Rightarrow> string option \<Rightarrow> db \<Rightarrow> (api_error + order) \<times> db" where
  "updateOrderStatus now i requested s =
     (case requested of
        None \<Rightarrow> (Inl (ApiError 400 ''Please provide order status''), s)
      | Some st \<Rightarrow>
          if st = [] then (Inl (ApiError 400 ''Please provide order status''), s)
          else if st \<notin> set validStatuses then (Inl (ApiError 400 ''Invalid order status''), s)
          else
            (case findById i s of
               None \<Rightarrow> (Inl (missingOrder i), s)
             | Some ord \<Rightarrow>
                 let o1 = ord\<lparr>status := st\<rparr>;
                     o2 = (if st = ''delivered'' then o1\<lparr>deliveredAt := Some now\<rparr> else o1);
                     o3 = (if st = ''cancelled'' \<and> isPaid o2
                           then o2\<lparr>refundStatus := Some ''pending''\<rparr> else o2);
                     s1 = save o3 s;
                     s2 = sendUserNotification (user o3) (''order_'' @ st) (oid o3) s1
                 in (Inr o3, s2)))"

text \<open>
  \<^verbatim>\<open>cancelOrder\<close> (order.controller.js, lines 551-612), the dedicated cancel
  operation. \<open>admins\<close> are the ids of the users with role admin, each of whom is
  notified after the owner.
\<close>

definition cancelOrder ::
  "string list \<Rightarrow> req_user \<Rightarrow> string \<Rightarrow> db \<Rightarrow> (api_error + order) \<times> db" where
  "cancelOrder admins ru i s =
     (case findById i s of
        None \<Rightarrow> (Inl (missingOrder i), s)
      | Some ord \<Rightarrow>
          if user ord \<noteq> u_id ru \<and> u_role ru \<noteq> ''admin''
          then (Inl (ApiError 403 ''Not authorized to cancel this order''), s)
          else if status ord = ''delivered''
          then (Inl (ApiError 400 ''Cannot cancel a delivered order''), s)
          else if status ord = ''cancelled''
          then (Inl (ApiError 400 ''Order is already cancelled''), s)
          else
            let o1 = ord\<lparr>status := ''cancelled''\<rparr>;
                o2 = (if isPaid o1 then o1\<lparr>refundStatus := Some ''pending''\<rparr> else o1);
                s1 = save o2 s;
                s2 = sendUserNotification (user o2) ''order_cancelled'' (oid o2) s1;
                s3 = fold (\<lambda>a. pushNotification a ''order_cancelled'' (oid o2)) admins s2
            in (Inr o2, s3))"

text \<open>
  \<^verbatim>\<open>a || b\<close> on numbers: zero is falsy.
\<close>

definition num_or :: "rat option \<Rightarrow> rat \<Rightarrow> rat" where
  "num_or a b = (case a of None \<Rightarrow> b | Some x \<Rightarrow> if x = 0 then b else x)"

text \<open>
  \<^verbatim>\<open>processRefund\<close> of order.controller.js (lines 621-668), the admin refund
  operation; it records a refund that the admin made by other means and does not call
  the gateway. Of the object assigned to \<^verbatim>\<open>refundDetails\<close> the schema keeps
  \<^verbatim>\<open>amount\<close>, \<^verbatim>\<open>processedAt\<close> and \<^verbatim>\<open>processedBy\<close>.
\<close>

definition processRefund_order ::
  "nat \<Rightarrow> req_user \<Rightarrow> string \<Rightarrow> rat option \<Rightarrow> db \<Rightarrow> (api_error + order) \<times> db" where
  "processRefund_order now ru i refundAmount s =
     (case findById i s of
        None \<Rightarrow> (Inl (missingOrder i), s)
      | Some ord \<Rightarrow>
          if status ord \<noteq> ''cancelled''
          then (Inl (ApiError 400 ''Only cancelled orders can be refunded''), s)
          else if \<not> isPaid ord
          then (Inl (ApiError 400 ''Order was not paid, no refund needed''), s)
          else if refundStatus ord = Some ''completed''
          then (Inl (ApiError 400 ''Refund has already been processed''), s)
          else
            let ord' = ord\<lparr>refundStatus := Some ''completed'',
                   refundDetails :=
                     \<lparr>rd_amount = Some (num_or refundAmount (totalPrice ord)),
                      rd_id = None, rd_status = None, rd_processedAt = Some now,
                      rd_processedBy = Some (u_id ru), rd_reason = None,
                      rd_razorpayRefundId = None\<rparr>\<rparr>;
                s1 = save ord' s;
                s2 = pushNotification (user ord') ''refund_processed'' (oid ord') s1
            in (Inr ord', s2))"

section \<open>Money helpers\<close>

text \<open>
  JavaScript numbers are IEEE 754 doubles. A finite double is modelled by the rational it
  denotes, and an arithmetic operation by the exact operation followed by rounding to the
  nearest double, ties to even: \<open>ilog2 x\<close> is the exponent \<open>e\<close> with
  \<open>2 ^ e \<le> \<bar>x\<bar> < 2 ^ (e + 1)\<close>, the doubles of that binade are the multiples of
  \<open>2 ^ (e - 52)\<close>, and below \<open>2 ^ - 1022\<close> (subnormals) the spacing stays
  \<open>2 ^ - 1074\<close>. Overflow to \<^verbatim>\<open>Infinity\<close> (magnitudes from \<open>2 ^ 1024\<close>) is not
  modelled.
\<close>

definition ilog2 :: "rat \<Rightarrow> int" where
  "ilog2 x =
     (let (p, q) = quotient_of \<bar>x\<bar>;
          d = bitlen p - bitlen q
      in if 2 powi d \<le> \<bar>x\<bar> then d else d - 1)"

definition round_half_even :: "rat \<Rightarrow> int" where
  "round_half_even y =
     (let f = \<lfloor>y\<rfloor>; r = y - of_int f
      in if r < 1 / 2 then f else if 1 / 2 < r then f + 1 else if even f then f else f + 1)"

definition double_of :: "rat \<Rightarrow> rat" where
  "double_of x =
     (if x = 0 then 0
      else let u = 2 powi (max (ilog2 x) (- 1022) - 52)
           in of_int (round_half_even (x / u)) * u)"

text \<open>
  \<^verbatim>\<open>Math.round\<close>: the nearest integer, a tie going up; it is exact on every double.
\<close>

definition Math_round :: "rat \<Rightarrow> int" where
  "Math_round x = \<lfloor>x + 1 / 2\<rfloor>"

text \<open>
  \<^verbatim>\<open>formatAmountForRazorpay\<close> and \<^verbatim>\<open>formatAmountFromRazorpay\<close> of
  \<^verbatim>\<open>razorpay.config.js\<close> (in adminLog.model.js, lines 173-179):
  \<^verbatim>\<open>Math.round(amount * 100)\<close> and \<^verbatim>\<open>amount / 100\<close>.
\<close>

definition formatAmountForRazorpay :: "rat \<Rightarrow> int" where
  "formatAmountForRazorpay amount = Math_round (double_of (amount * 100))"

definition formatAmountFromRazorpay :: "rat \<Rightarrow> rat" where
  "formatAmountFromRazorpay amount = double_of (amount / 100)"

section \<open>Payment gateway\<close>

text \<open>
  The payment entity of the gateway, as \<^verbatim>\<open>razorpay.payments.fetch\<close> returns it and
  as a webhook event carries it, and the refund entity.
\<close>

record rzp_payment =
  pay_id :: "string option"
  pay_status :: "string option"
  pay_email :: "string option"
  pay_order_id :: "string option"
  pay_amount :: rat
  pay_currency :: "string option"
  pay_error_code :: "string option"
  pay_error_description :: "string option"

record rzp_refund =
  ref_id :: "string option"
  ref_amount :: rat
  ref_status :: "string option"
  ref_payment_id :: "string option"
  ref_notes_reason :: "string option"

text \<open>
  The gateway client: each call answers with an entity or throws (\<open>None\<close>).
  \<open>orders_create amount receipt\<close> answers with the id of the new gateway order,
  \<open>payments_refund payment_id amount\<close> with the refund.
\<close>

record gateway =
  orders_create :: "int \<Rightarrow> string \<Rightarrow> string option"
  payments_fetch :: "string \<Rightarrow> rzp_payment option"
  payments_refund :: "string \<Rightarrow> int \<Rightarrow> rzp_refund option"

section \<open>Payment controller\<close>

text \<open>
  \<^verbatim>\<open>createRazorpayOrder\<close> (part_009, lines 14-70). The order is loaded with its user
  populated; the user document of an order is taken to exist, so that
  \<^verbatim>\<open>order.user._id\<close> is the order's user id. The answer is the id of the gateway
  order.
\<close>

definition createRazorpayOrder ::
  "gateway \<Rightarrow> req_user \<Rightarrow> string option \<Rightarrow> db \<Rightarrow> (api_error + string) \<times> db" where
  "createRazorpayOrder gw ru orderId s =
     (case orderId of
        None \<Rightarrow> (Inl (ApiError 400 ''Order ID is required''), s)
      | Some i \<Rightarrow>
          if i = [] then (Inl (ApiError 400 ''Order ID is required''), s)
          else
            (case findById i s of
               None \<Rightarrow> (Inl (missingOrder i), s)
             | Some ord \<Rightarrow>
                 if user ord \<noteq> u_id ru
                 then (Inl (ApiError 403 ''Not authorized to access this order''), s)
                 else if isPaid ord
                 then (Inl (ApiError 400 ''Order is already paid''), s)
                 else if status ord = ''cancelled''
                 then (Inl (ApiError 400 ''Cannot process payment for cancelled order''), s)
                 else
                   (case orders_create gw (formatAmountForRazorpay (totalPrice ord))
                           (orderNumber ord) of
                      None \<Rightarrow> (Inl (Thrown ''razorpay.orders.create''), s)
                    | Some rid \<Rightarrow>
                        let ord' = ord\<lparr>razorpayOrderId := Some rid\<rparr>
                        in (Inr rid, save ord' s))))"

text \<open>The body of a verification request.\<close>

record verify_body =
  vb_razorpay_order_id :: "string option"
  vb_razorpay_payment_id :: "string option"
  vb_razorpay_signature :: "string option"
  vb_orderId :: "string option"

text \<open>
  The signature check of \<^verbatim>\<open>verifyPayment\<close> (part_009, lines 119-130), made only when
  both the gateway order id and the signature are given: the error it ends the request
  with, if any. \<open>hmac key msg\<close> is the hex digest of HMAC-SHA256; with no key
  configured \<^verbatim>\<open>createHmac\<close> throws.
\<close>

definition checkPaymentSignature ::
  "(string \<Rightarrow> string \<Rightarrow> string) \<Rightarrow> string option \<Rightarrow> verify_body \<Rightarrow> string \<Rightarrow> api_error option" where
  "checkPaymentSignature hmac keySecret b pid =
     (case (vb_razorpay_order_id b, vb_razorpay_signature b) of
        (Some ro, Some sg) \<Rightarrow>
          if ro \<noteq> [] \<and> sg \<noteq> []
          then (case keySecret of
                  None \<Rightarrow> Some (Thrown ''TypeError'')
                | Some k \<Rightarrow>
                    if hmac k (ro @ ''|'' @ pid) \<noteq> sg
                    then Some (ApiError 400 ''Invalid payment signature'')
                    else None)
          else None
      | _ \<Rightarrow> None)"

text \<open>
  The order id that \<^verbatim>\<open>verifyPayment\<close> settles on (part_009, lines 93-105): the
  \<^verbatim>\<open>orderId\<close> of the body or, without one, the id of the order bound to the gateway
  order id; \<open>None\<close> when neither gives one.
\<close>

definition actualOrderId :: "verify_body \<Rightarrow> db \<Rightarrow> string option" where
  "actualOrderId b s =
     (if truthy (vb_orderId b) then vb_orderId b
      else if truthy (vb_razorpay_order_id b)
      then map_option oid (findOneByRazorpayOrderId (vb_razorpay_order_id b) s)
      else None)"

text \<open>
  \<^verbatim>\<open>verifyPayment\<close> (part_009, lines 77-180). The answer is the updated order and the
  payment's amount in major units.
\<close>

definition verifyPayment ::
  "(string \<Rightarrow> string \<Rightarrow> string) \<Rightarrow> string option \<Rightarrow> gateway \<Rightarrow> nat \<Rightarrow> req_user \<Rightarrow> verify_body \<Rightarrow> db
     \<Rightarrow> (api_error + order \<times> rat) \<times> db" where
  "verifyPayment hmac keySecret gw now ru b s =
     (case vb_razorpay_payment_id b of
        None \<Rightarrow> (Inl (ApiError 400 ''Missing razorpay_payment_id''), s)
      | Some pid \<Rightarrow>
          if pid = [] then (Inl (ApiError 400 ''Missing razorpay_payment_id''), s)
          else
            (case actualOrderId b s of
               None \<Rightarrow>
                 (Inl (ApiError 400
                    ''Order ID not found. Please provide orderId or valid razorpay_order_id''), s)
             | Some i \<Rightarrow>
                 (case findById i s of
                    None \<Rightarrow> (Inl (missingOrder i), s)
                  | Some ord \<Rightarrow>
                      if user ord \<noteq> u_id ru
                      then (Inl (ApiError 403 ''Not authorized to verify this payment''), s)
                      else
                        (case checkPaymentSignature hmac keySecret b pid of
                           Some e \<Rightarrow> (Inl e, s)
                         | None \<Rightarrow>
                             (case payments_fetch gw pid of
                                None \<Rightarrow>
                                  (Inl (ApiError 400 ''Failed to verify payment with Razorpay''), s)
                              | Some payment \<Rightarrow>
                                  if pay_status payment \<noteq> Some ''captured''
                                  then (Inl (ApiError 400 ''Payment not captured''), s)
                                  else
                                    let ord' = ord\<lparr>isPaid := True, paidAt := Some now,
                                          paymentMethod := ''razorpay'',
                                          paymentResult := castPaymentResult
                                            \<lparr>pr_id = Some pid, pr_status = Some ''captured'',
                                             pr_update_time = Some now,
                                             pr_email_address = u_email ru,
                                             pr_razorpay_order_id =
                                               js_or (vb_razorpay_order_id b) (pay_order_id payment),
                                             pr_razorpay_payment_id = Some pid,
                                             pr_error_code = None, pr_error_description = None,
                                             pr_method = None\<rparr>,
                                          status := ''processing''\<rparr>;
                                        s1 = save ord' s;
                                        s2 = sendUserNotification (user ord') ''payment_successful''
                                               (oid ord') s1
                                    in (Inr (ord', formatAmountFromRazorpay (pay_amount payment)),
                                        s2))))))"

text \<open>
  \<^verbatim>\<open>processRefund\<close> of the payment controller (part_009, lines 243-320), the
  gateway-backed refund operation.
\<close>

definition processRefund ::
  "gateway \<Rightarrow> nat \<Rightarrow> req_user \<Rightarrow> string option \<Rightarrow> rat option \<Rightarrow> string option \<Rightarrow> db
     \<Rightarrow> (api_error + order) \<times> db" where
  "processRefund gw now ru orderId refundAmount reason s =
     (case orderId of
        None \<Rightarrow> (Inl (ApiError 400 ''Order ID is required''), s)
      | Some i \<Rightarrow>
          if i = [] then (Inl (ApiError 400 ''Order ID is required''), s)
          else
            (case findById i s of
               None \<Rightarrow> (Inl (missingOrder i), s)
             | Some ord \<Rightarrow>
                 if \<not> isPaid ord then (Inl (ApiError 400 ''Order is not paid''), s)
                 else
                   (case pr_razorpay_payment_id (paymentResult ord) of
                      None \<Rightarrow> (Inl (ApiError 400 ''Order does not have Razorpay payment''), s)
                    | Some pid \<Rightarrow>
                        if pid = []
                        then (Inl (ApiError 400 ''Order does not have Razorpay payment''), s)
                        else
                          (case payments_refund gw pid
                                  (formatAmountForRazorpay (num_or refundAmount (totalPrice ord))) of
                             None \<Rightarrow> (Inl (Thrown ''razorpay.payments.refund''), s)
                           | Some refund \<Rightarrow>
                               let ord' = ord\<lparr>refundStatus := Some ''completed'',
                                     refundDetails :=
                                       \<lparr>rd_amount = Some (formatAmountFromRazorpay (ref_amount refund)),
                                        rd_id = ref_id refund, rd_status = ref_status refund,
                                        rd_processedAt = Some now,
                                        rd_processedBy = Some (u_id ru),
                                        rd_reason = js_or reason (Some ''Customer request''),
                                        rd_razorpayRefundId = ref_id refund\<rparr>\<rparr>;
                                   s1 = save ord' s;
                                   s2 = sendUserNotification (user ord') ''refund_processed''
                                          (oid ord') s1
                               in (Inr ord', s2)))))"

section \<open>Webhook controller\<close>

text \<open>
  The parsed body of a webhook request: the event name and the entities under
  \<^verbatim>\<open>payload\<close>; \<open>None\<close> for an entity means that the path to it is missing, so that
  reading it throws a \<^verbatim>\<open>TypeError\<close>.
\<close>

record webhook_event =
  ev_event :: "string option"
  ev_payment :: "rzp_payment option"
  ev_refund :: "rzp_refund option"
  ev_order :: "string option option"

text \<open>
  \<^verbatim>\<open>handlePaymentCaptured\<close> (part_010, lines 72-110). The module does not import
  \<^verbatim>\<open>sendUserNotification\<close>: the call after \<^verbatim>\<open>order.save()\<close> throws a
  \<^verbatim>\<open>ReferenceError\<close>, which the handler's \<^verbatim>\<open>catch\<close> logs, so the saved order is the
  whole effect.
\<close>

definition handlePaymentCaptured :: "nat \<Rightarrow> rzp_payment \<Rightarrow> db \<Rightarrow> db" where
  "handlePaymentCaptured now payment s =
     (case findOneByRazorpayOrderId (pay_order_id payment) s of
        None \<Rightarrow> s
      | Some ord \<Rightarrow>
          if \<not> isPaid ord
          then
            let ord' = ord\<lparr>isPaid := True, paidAt := Some now,
                  paymentMethod := ''razorpay'',
                  paymentResult := castPaymentResult
                    \<lparr>pr_id = pay_id payment, pr_status = pay_status payment,
                     pr_update_time = Some now, pr_email_address = pay_email payment,
                     pr_razorpay_order_id = pay_order_id payment,
                     pr_razorpay_payment_id = pay_id payment,
                     pr_error_code = None, pr_error_description = None, pr_method = None\<rparr>,
                  status := ''processing''\<rparr>
            in save ord' s
          else s)"

text \<open>\<^verbatim>\<open>handlePaymentFailed\<close> (part_010, lines 115-155).\<close>

definition handlePaymentFailed :: "nat \<Rightarrow> rzp_payment \<Rightarrow> db \<Rightarrow> db" where
  "handlePaymentFailed now payment s =
     (case findOneByRazorpayOrderId (pay_order_id payment) s of
        None \<Rightarrow> s
      | Some ord \<Rightarrow>
          let ord' = ord\<lparr>status := ''cancelled'',
                paymentResult := castPaymentResult
                  \<lparr>pr_id = pay_id payment, pr_status = pay_status payment,
                   pr_update_time = Some now, pr_email_address = pay_email payment,
                   pr_razorpay_order_id = pay_order_id payment,
                   pr_razorpay_payment_id = pay_id payment,
                   pr_error_code = pay_error_code payment,
                   pr_error_description = pay_error_description payment,
                   pr_method = None\<rparr>\<rparr>;
              s1 = save ord' s
          in pushNotification (user ord') ''payment_failed'' (oid ord') s1)"

text \<open>\<^verbatim>\<open>handleRefundProcessed\<close> (part_010, lines 160-200).\<close>

definition handleRefundProcessed :: "nat \<Rightarrow> rzp_refund \<Rightarrow> db \<Rightarrow> db" where
  "handleRefundProcessed now refund s =
     (case findOneByPaymentId (ref_payment_id refund) s of
        None \<Rightarrow> s
      | Some ord \<Rightarrow>
          let ord' = ord\<lparr>refundStatus := Some ''completed'',
                refundDetails :=
                  \<lparr>rd_amount = Some (double_of (ref_amount refund / 100)),
                   rd_id = ref_id refund, rd_status = ref_status refund,
                   rd_processedAt = Some now, rd_processedBy = None,
                   rd_reason = js_or (ref_notes_reason refund) (Some ''Customer request''),
                   rd_razorpayRefundId = ref_id refund\<rparr>\<rparr>;
              s1 = save ord' s
          in pushNotification (user ord') ''refund_processed'' (oid ord') s1)"

text \<open>\<^verbatim>\<open>handleOrderPaid\<close> (part_010, lines 205-228).\<close>

definition handleOrderPaid :: "nat \<Rightarrow> string option \<Rightarrow> db \<Rightarrow> db" where
  "handleOrderPaid now entity_id s =
     (case findOneByRazorpayOrderId entity_id s of
        None \<Rightarrow> s
      | Some ord \<Rightarrow>
          if \<not> isPaid ord
          then save (ord\<lparr>isPaid := True, paidAt := Some now, status := ''processing''\<rparr>) s
          else s)"

text \<open>
  The \<^verbatim>\<open>switch\<close> of \<^verbatim>\<open>handleRazorpayWebhook\<close> (part_010, lines 37-63), reached once
  the signature has been accepted.
\<close>

definition dispatchEvent :: "nat \<Rightarrow> webhook_event \<Rightarrow> db \<Rightarrow> (api_error + unit) \<times> db" where
  "dispatchEvent now ev s =
     (if ev_event ev = Some ''payment.captured''
      then (case ev_payment ev of
              None \<Rightarrow> (Inl (Thrown ''TypeError''), s)
            | Some payment \<Rightarrow> (Inr (), handlePaymentCaptured now payment s))
      else if ev_event ev = Some ''payment.failed''
      then (case ev_payment ev of
              None \<Rightarrow> (Inl (Thrown ''TypeError''), s)
            | Some payment \<Rightarrow> (Inr (), handlePaymentFailed now payment s))
      else if ev_event ev = Some ''refund.processed''
      then (case ev_refund ev of
              None \<Rightarrow> (Inl (Thrown ''TypeError''), s)
            | Some refund \<Rightarrow> (Inr (), handleRefundProcessed now refund s))
      else if ev_event ev = Some ''order.paid''
      then (case ev_order ev of
              None \<Rightarrow> (Inl (Thrown ''TypeError''), s)
            | Some entity_id \<Rightarrow> (Inr (), handleOrderPaid now entity_id s))
      else (Inr (), s))"



section \<open>Concrete runs\<close>

text \<open>
  Inputs for the concrete runs below: an unpaid, pending order of user \<open>u1\<close> bound to
  the gateway order \<open>order_A\<close>, a store that holds one order, its owner, a gateway
  that captures every payment and grants every refund, and stand-ins for the digest and
  the serialiser (the theorems hold for every digest and serialiser).
\<close>

definition emptyRefundDetails :: refund_details where
  "emptyRefundDetails = \<lparr>rd_amount = None, rd_id = None, rd_status = None,
     rd_processedAt = None, rd_processedBy = None, rd_reason = None,
     rd_razorpayRefundId = None\<rparr>"

definition pending_order :: order where
  "pending_order = \<lparr>oid = ''o1'', user = ''u1'', orderNumber = ''YT-20240101-0001'',
     paymentMethod = ''razorpay'', paymentResult = emptyPaymentResult, totalPrice = 500,
     isPaid = False, paidAt = None, deliveredAt = None, status = ''pending'',
     razorpayOrderId = Some ''order_A'', refundStatus = None,
     refundDetails = emptyRefundDetails\<rparr>"

definition store_of :: "order \<Rightarrow> db" where
  "store_of d = \<lparr>orders = [d], notifications = []\<rparr>"

definition owner :: req_user where
  "owner = \<lparr>u_id = ''u1'', u_role = ''user'', u_email = Some ''u1@example.com''\<rparr>"

definition admin :: req_user where
  "admin = \<lparr>u_id = ''a1'', u_role = ''admin'', u_email = Some ''a1@example.com''\<rparr>"

definition captured_payment :: "string \<Rightarrow> rzp_payment" where
  "captured_payment p = \<lparr>pay_id = Some p, pay_status = Some ''captured'',
     pay_email = Some ''u1@example.com'', pay_order_id = Some ''order_A'',
     pay_amount = 50000, pay_currency = Some ''INR'', pay_error_code = None,
     pay_error_description = None\<rparr>"

definition failed_payment :: "string \<Rightarrow> rzp_payment" where
  "failed_payment p = \<lparr>pay_id = Some p, pay_status = Some ''failed'',
     pay_email = Some ''u1@example.com'', pay_order_id = Some ''order_A'',
     pay_amount = 50000, pay_currency = Some ''INR'',
     pay_error_code = Some ''BAD_REQUEST_ERROR'',
     pay_error_description = Some ''Payment declined by the bank''\<rparr>"

definition granting_gateway :: gateway where
  "granting_gateway = \<lparr>orders_create = (\<lambda>amount receipt. Some ''order_B''),
     payments_fetch = (\<lambda>p. Some (captured_payment p)),
     payments_refund = (\<lambda>p amount. Some \<lparr>ref_id = Some ''rfnd_1'', ref_amount = of_int amount,
        ref_status = Some ''processed'', ref_payment_id = Some p,
        ref_notes_reason = None\<rparr>)\<rparr>"

definition concat_digest :: "string \<Rightarrow> string \<Rightarrow> string" where
  "concat_digest key msg = key @ ''/'' @ msg"

definition event_name :: "webhook_event \<Rightarrow> string" where
  "event_name ev = (case ev_event ev of None \<Rightarrow> [] | Some e \<Rightarrow> e)"

text \<open>
  A stand-in for the parser of the webhook body: like a JSON parser it ignores blanks
  between tokens. The raw text, blanks removed, is the event name, and the payload is the
  failed payment \<open>pay_1\<close>; \<open>event_name\<close> serialises such an event without blanks, as
  \<^verbatim>\<open>JSON.stringify\<close> does.
\<close>

definition failed_event_of :: "string \<Rightarrow> webhook_event" where
  "failed_event_of raw = \<lparr>ev_event = Some (filter (\<lambda>c. c \<noteq> CHR '' '') raw),
     ev_payment = Some (failed_payment ''pay_1''), ev_refund = None, ev_order = None\<rparr>"

definition verify_request :: "string \<Rightarrow> verify_body" where
  "verify_request p = \<lparr>vb_razorpay_order_id = Some ''order_A'',
     vb_razorpay_payment_id = Some p, vb_razorpay_signature = None, vb_orderId = Some ''o1''\<rparr>"

section \<open>Store lemmas\<close>

lemmas run_defs = pending_order_def store_of_def owner_def admin_def captured_payment_def
  failed_payment_def granting_gateway_def concat_digest_def event_name_def verify_request_def
  failed_event_of_def
  emptyPaymentResult_def emptyRefundDetails_def findById_def findOneByRazorpayOrderId_def
  findOneByPaymentId_def save_def sendUserNotification_def pushNotification_def
  castPaymentResult_def payment_result.truncate_def truthy_def js_or_def num_or_def

lemma find_save_same:
  "find (\<lambda>x. oid x = oid d) xs = Some y \<Longrightarrow>
   find (\<lambda>x. oid x = oid d) (map (\<lambda>x. if oid x = oid d then d else x) xs) = Some d"
  by (induction xs) (auto split: if_splits)

lemma findById_save:
  "findById (oid d) s = Some y \<Longrightarrow> findById (oid d) (save d s) = Some d"
  unfolding findById_def save_def by (simp add: find_save_same)

lemma findById_oid: "findById i s = Some x \<Longrightarrow> oid x = i"
  by (auto simp: findById_def find_Some_iff)

lemma findById_sendUserNotification [simp]:
  "findById i (sendUserNotification u t ord s) = findById i s"
  by (simp add: findById_def sendUserNotification_def)

lemma findById_pushNotification [simp]:
  "findById i (pushNotification u t ord s) = findById i s"
  by (simp add: findById_def pushNotification_def)

lemma notifications_save [simp]: "notifications (save d s) = notifications s"
  by (simp add: save_def)

section \<open>Payment confirmation\<close>

text \<open>
  Claim C1 says that \<^verbatim>\<open>verifyPayment\<close>, called again with the same gateway payment id
  on an order that is already paid, returns the order unchanged, sends no second
  notification and keeps \<open>paidAt\<close>. \<^verbatim>\<open>verifyPayment\<close> never reads \<open>isPaid\<close>, unlike
  \<^verbatim>\<open>handlePaymentCaptured\<close> and \<^verbatim>\<open>handleOrderPaid\<close>, which act only on an unpaid
  order. The run: the owner confirms payment \<open>pay_1\<close> at time 100 and again at time 200.
  After the first call the order is paid at 100 and one notification has been sent; after
  the second \<open>paidAt\<close> is 200 and there are two notifications.
\<close>

theorem verifyPayment_twice_reapplies:
  "snd (verifyPayment concat_digest None granting_gateway 100 owner (verify_request ''pay_1'')
         (store_of pending_order))
   = \<lparr>orders = [pending_order\<lparr>isPaid := True, paidAt := Some 100,
          paymentResult := \<lparr>pr_id = Some ''pay_1'', pr_status = Some ''captured'',
             pr_update_time = Some 100, pr_email_address = Some ''u1@example.com'',
             pr_razorpay_order_id = Some ''order_A'', pr_razorpay_payment_id = Some ''pay_1''\<rparr>,
          status := ''processing''\<rparr>],
      notifications = [\<lparr>n_user = ''u1'', n_type = ''payment_successful'', n_order = ''o1''\<rparr>]\<rparr>
   \<and> snd (verifyPayment concat_digest None granting_gateway 200 owner (verify_request ''pay_1'')
         (snd (verifyPayment concat_digest None granting_gateway 100 owner
                (verify_request ''pay_1'') (store_of pending_order))))
   = \<lparr>orders = [pending_order\<lparr>isPaid := True, paidAt := Some 200,
          paymentResult := \<lparr>pr_id = Some ''pay_1'', pr_status = Some ''captured'',
             pr_update_time = Some 200, pr_email_address = Some ''u1@example.com'',
             pr_razorpay_order_id = Some ''order_A'', pr_razorpay_payment_id = Some ''pay_1''\<rparr>,
          status := ''processing''\<rparr>],
      notifications = [\<lparr>n_user = ''u1'', n_type = ''payment_successful'', n_order = ''o1''\<rparr>,
                       \<lparr>n_user = ''u1'', n_type = ''payment_successful'', n_order = ''o1''\<rparr>]\<rparr>"
  by (simp add: verifyPayment_def actualOrderId_def checkPaymentSignature_def run_defs Let_def)

text \<open>
  Claim C3, as the code has it: for an unpaid order that the request resolves to, owned by
  the requester and past the signature check, \<^verbatim>\<open>verifyPayment\<close> answers 400 and changes
  nothing unless the gateway returns the payment with status \<open>captured\<close>; when it does,
  the call succeeds, the order gets \<open>isPaid = True\<close>, \<open>paidAt = now\<close>, a
  \<open>paymentResult\<close> with the gateway payment id, the gateway order id and the status
  \<open>captured\<close>, the payment method \<open>razorpay\<close> and the status \<open>processing\<close>
  whatever its status was, and keeps its other fields; in the store that order, and no
  other, is replaced by the updated one, and the notifications grow by one
  \<open>payment_successful\<close> notification to the owner.
\<close>

theorem verifyPayment_success:
  assumes "vb_razorpay_payment_id b = Some pid" and "pid \<noteq> []"
    and "actualOrderId b s = Some i" and "findById i s = Some ord" and "\<not> isPaid ord"
    and "user ord = u_id ru" and "checkPaymentSignature hmac keySecret b pid = None"
  shows "(\<not> (\<exists>payment. payments_fetch gw pid = Some payment
                 \<and> pay_status payment = Some ''captured'') \<longrightarrow>
            (\<exists>m. verifyPayment hmac keySecret gw now ru b s = (Inl (ApiError 400 m), s)))
       \<and> (\<forall>payment. payments_fetch gw pid = Some payment
                 \<and> pay_status payment = Some ''captured'' \<longrightarrow>
            (let ord' = ord\<lparr>isPaid := True, paidAt := Some now,
                   paymentMethod := ''razorpay'',
                   paymentResult :=
                     \<lparr>pr_id = Some pid, pr_status = Some ''captured'',
                      pr_update_time = Some now, pr_email_address = u_email ru,
                      pr_razorpay_order_id =
                        js_or (vb_razorpay_order_id b) (pay_order_id payment),
                      pr_razorpay_payment_id = Some pid\<rparr>,
                   status := ''processing''\<rparr>;
                 s' = s\<lparr>orders := map (\<lambda>x. if oid x = oid ord then ord' else x) (orders s),
                        notifications := notifications s
                          @ [\<lparr>n_user = user ord, n_type = ''payment_successful'',
                              n_order = oid ord\<rparr>]\<rparr>
             in verifyPayment hmac keySecret gw now ru b s
                  = (Inr (ord', formatAmountFromRazorpay (pay_amount payment)), s')
                \<and> findById i s' = Some ord'))"
proof (intro conjI impI allI)
  assume "\<not> (\<exists>payment. payments_fetch gw pid = Some payment
                 \<and> pay_status payment = Some ''captured'')"
  with assms show "\<exists>m. verifyPayment hmac keySecret gw now ru b s = (Inl (ApiError 400 m), s)"
    by (cases "payments_fetch gw pid") (auto simp: verifyPayment_def)
next
  fix payment
  assume h: "payments_fetch gw pid = Some payment \<and> pay_status payment = Some ''captured''"
  define ord' where "ord' = ord\<lparr>isPaid := True, paidAt := Some now,
      paymentMethod := ''razorpay'',
      paymentResult :=
        \<lparr>pr_id = Some pid, pr_status = Some ''captured'',
         pr_update_time = Some now, pr_email_address = u_email ru,
         pr_razorpay_order_id = js_or (vb_razorpay_order_id b) (pay_order_id payment),
         pr_razorpay_payment_id = Some pid\<rparr>,
      status := ''processing''\<rparr>"
  define s' where "s' = s\<lparr>orders := map (\<lambda>x. if oid x = oid ord then ord' else x) (orders s),
      notifications := notifications s
        @ [\<lparr>n_user = user ord, n_type = ''payment_successful'', n_order = oid ord\<rparr>]\<rparr>"
  have oo: "oid ord' = oid ord" "user ord' = user ord" by (simp_all add: ord'_def)
  have oi: "oid ord' = i" using findById_oid [OF assms(4)] by (simp add: ord'_def)
  have st: "s' = sendUserNotification (user ord') ''payment_successful'' (oid ord') (save ord' s)"
    by (simp add: s'_def sendUserNotification_def save_def oo)
  have run: "verifyPayment hmac keySecret gw now ru b s
      = (Inr (ord', formatAmountFromRazorpay (pay_amount payment)), s')"
    using assms h unfolding st
    by (simp add: verifyPayment_def ord'_def Let_def castPaymentResult_def
        payment_result.truncate_def)
  have f: "findById i s' = Some ord'"
    using findById_save [of ord' s ord] assms(4) oi by (simp add: st)
  show "let ord' = ord\<lparr>isPaid := True, paidAt := Some now,
                   paymentMethod := ''razorpay'',
                   paymentResult :=
                     \<lparr>pr_id = Some pid, pr_status = Some ''captured'',
                      pr_update_time = Some now, pr_email_address = u_email ru,
                      pr_razorpay_order_id =
                        js_or (vb_razorpay_order_id b) (pay_order_id payment),
                      pr_razorpay_payment_id = Some pid\<rparr>,
                   status := ''processing''\<rparr>;
                 s' = s\<lparr>orders := map (\<lambda>x. if oid x = oid ord then ord' else x) (orders s),
                        notifications := notifications s
                          @ [\<lparr>n_user = user ord, n_type = ''payment_successful'',
                              n_order = oid ord\<rparr>]\<rparr>
             in verifyPayment hmac keySecret gw now ru b s
                  = (Inr (ord', formatAmountFromRazorpay (pay_amount payment)), s')
                \<and> findById i s' = Some ord'"
    using run f unfolding Let_def ord'_def s'_def by simp
qed

text \<open>
  The theorem at the pending order of the concrete runs, with the gateway that captures:
  its hypotheses hold there, and so does the success branch.
\<close>

theorem verifyPayment_success_witness:
  "vb_razorpay_payment_id (verify_request ''pay_1'') = Some ''pay_1'' \<and> ''pay_1'' \<noteq> []
   \<and> actualOrderId (verify_request ''pay_1'') (store_of pending_order) = Some ''o1''
   \<and> findById ''o1'' (store_of pending_order) = Some pending_order
   \<and> \<not> isPaid pending_order \<and> user pending_order = u_id owner
   \<and> checkPaymentSignature concat_digest None (verify_request ''pay_1'') ''pay_1'' = None
   \<and> payments_fetch granting_gateway ''pay_1'' = Some (captured_payment ''pay_1'')
   \<and> pay_status (captured_payment ''pay_1'') = Some ''captured''
   \<and> verifyPayment concat_digest None granting_gateway 100 owner (verify_request ''pay_1'')
        (store_of pending_order)
      = (Inr (pending_order\<lparr>isPaid := True, paidAt := Some 100,
                paymentResult := \<lparr>pr_id = Some ''pay_1'', pr_status = Some ''captured'',
                   pr_update_time = Some 100, pr_email_address = Some ''u1@example.com'',
                   pr_razorpay_order_id = Some ''order_A'',
                   pr_razorpay_payment_id = Some ''pay_1''\<rparr>,
                status := ''processing''\<rparr>,
              formatAmountFromRazorpay 50000),
         \<lparr>orders = [pending_order\<lparr>isPaid := True, paidAt := Some 100,
                paymentResult := \<lparr>pr_id = Some ''pay_1'', pr_status = Some ''captured'',
                   pr_update_time = Some 100, pr_email_address = Some ''u1@example.com'',
                   pr_razorpay_order_id = Some ''order_A'',
                   pr_razorpay_payment_id = Some ''pay_1''\<rparr>,
                status := ''processing''\<rparr>],
          notifications
            = [\<lparr>n_user = ''u1'', n_type = ''payment_successful'', n_order = ''o1''\<rparr>]\<rparr>)"
proof -
  have h1: "vb_razorpay_payment_id (verify_request ''pay_1'') = Some ''pay_1''"
    by (simp add: verify_request_def)
  have h2: "''pay_1'' \<noteq> []" by simp
  have h3: "actualOrderId (verify_request ''pay_1'') (store_of pending_order) = Some ''o1''"
    by (simp add: actualOrderId_def verify_request_def truthy_def)
  have h4: "findById ''o1'' (store_of pending_order) = Some pending_order"
    by (simp add: run_defs)
  have h5: "\<not> isPaid pending_order" by (simp add: pending_order_def)
  have h6: "user pending_order = u_id owner" by (simp add: pending_order_def owner_def)
  have h7: "checkPaymentSignature concat_digest None (verify_request ''pay_1'') ''pay_1'' = None"
    by (simp add: checkPaymentSignature_def verify_request_def)
  have h8: "payments_fetch granting_gateway ''pay_1'' = Some (captured_payment ''pay_1'')"
    by (simp add: granting_gateway_def)
  have h9: "pay_status (captured_payment ''pay_1'') = Some ''captured''"
    by (simp add: captured_payment_def)
  from verifyPayment_success [where gw = granting_gateway and now = 100,
      OF h1 h2 h3 h4 h5 h6 h7] h8 h9
  have "verifyPayment concat_digest None granting_gateway 100 owner (verify_request ''pay_1'')
        (store_of pending_order)
      = (Inr (pending_order\<lparr>isPaid := True, paidAt := Some 100,
                paymentResult := \<lparr>pr_id = Some ''pay_1'', pr_status = Some ''captured'',
                   pr_update_time = Some 100, pr_email_address = Some ''u1@example.com'',
                   pr_razorpay_order_id = Some ''order_A'',
                   pr_razorpay_payment_id = Some ''pay_1''\<rparr>,
                status := ''processing''\<rparr>,
              formatAmountFromRazorpay 50000),
         \<lparr>orders = [pending_order\<lparr>isPaid := True, paidAt := Some 100,
                paymentResult := \<lparr>pr_id = Some ''pay_1'', pr_status = Some ''captured'',
                   pr_update_time = Some 100, pr_email_address = Some ''u1@example.com'',
                   pr_razorpay_order_id = Some ''order_A'',
                   pr_razorpay_payment_id = Some ''pay_1''\<rparr>,
                status := ''processing''\<rparr>],
          notifications
            = [\<lparr>n_user = ''u1'', n_type = ''payment_successful'', n_order = ''o1''\<rparr>]\<rparr>)"
    by (elim conjE allE [of _ "captured_payment ''pay_1''"])
       (simp add: Let_def run_defs)
  with h1 h2 h3 h4 h5 h6 h7 h8 h9 show ?thesis by blast
qed

text \<open>
  Against claim C3 as stated ("an order in any other state keeps its status"): an unpaid
  order with status \<open>shipped\<close> is confirmed and its status becomes \<open>processing\<close>.
\<close>

theorem verifyPayment_status_counterexample:
  "status (pending_order\<lparr>status := ''shipped''\<rparr>) = ''shipped''
   \<and> isPaid (pending_order\<lparr>status := ''shipped''\<rparr>) = False
   \<and> map_sum id (status \<circ> fst)
        (fst (verifyPayment concat_digest None granting_gateway 100 owner (verify_request ''pay_1'')
               (store_of (pending_order\<lparr>status := ''shipped''\<rparr>))))
      = Inr ''processing''"
  by (simp add: verifyPayment_def actualOrderId_def checkPaymentSignature_def run_defs Let_def)

section \<open>Payment intent\<close>

text \<open>
  Claim C4, as the code has it: for an unpaid, non-cancelled order that already has a
  gateway order id bound, a further \<^verbatim>\<open>createRazorpayOrder\<close> call by the owner is
  accepted whenever the gateway creates the gateway order; the new gateway order id
  replaces the bound one, so that the order holds one gateway order id at a time, the
  latest.
\<close>

theorem createRazorpayOrder_rebinds:
  assumes "findById i s = Some ord" and "i \<noteq> []" and "user ord = u_id ru"
    and "\<not> isPaid ord" and "status ord \<noteq> ''cancelled''"
    and "razorpayOrderId ord = Some bound"
    and "orders_create gw (formatAmountForRazorpay (totalPrice ord)) (orderNumber ord) = Some rid"
  shows "createRazorpayOrder gw ru (Some i) s
           = (Inr rid, save (ord\<lparr>razorpayOrderId := Some rid\<rparr>) s)
       \<and> findById i (save (ord\<lparr>razorpayOrderId := Some rid\<rparr>) s)
           = Some (ord\<lparr>razorpayOrderId := Some rid\<rparr>)"
proof
  show "createRazorpayOrder gw ru (Some i) s
           = (Inr rid, save (ord\<lparr>razorpayOrderId := Some rid\<rparr>) s)"
    using assms by (simp add: createRazorpayOrder_def)
  have "oid (ord\<lparr>razorpayOrderId := Some rid\<rparr>) = i"
    using findById_oid [OF assms(1)] by simp
  then show "findById i (save (ord\<lparr>razorpayOrderId := Some rid\<rparr>) s)
           = Some (ord\<lparr>razorpayOrderId := Some rid\<rparr>)"
    using findById_save [of "ord\<lparr>razorpayOrderId := Some rid\<rparr>" s ord] assms(1) by simp
qed

text \<open>
  The theorem at the pending order, bound to \<open>order_A\<close>, with the gateway that answers
  \<open>order_B\<close>.
\<close>

theorem createRazorpayOrder_rebinds_witness:
  "findById ''o1'' (store_of pending_order) = Some pending_order \<and> ''o1'' \<noteq> []
   \<and> user pending_order = u_id owner \<and> \<not> isPaid pending_order
   \<and> status pending_order \<noteq> ''cancelled''
   \<and> razorpayOrderId pending_order = Some ''order_A''
   \<and> orders_create granting_gateway (formatAmountForRazorpay (totalPrice pending_order))
        (orderNumber pending_order) = Some ''order_B''
   \<and> createRazorpayOrder granting_gateway owner (Some ''o1'') (store_of pending_order)
        = (Inr ''order_B'', save (pending_order\<lparr>razorpayOrderId := Some ''order_B''\<rparr>)
             (store_of pending_order))
   \<and> findById ''o1'' (save (pending_order\<lparr>razorpayOrderId := Some ''order_B''\<rparr>)
        (store_of pending_order)) = Some (pending_order\<lparr>razorpayOrderId := Some ''order_B''\<rparr>)"
proof -
  have h1: "findById ''o1'' (store_of pending_order) = Some pending_order"
    by (simp add: run_defs)
  have h2: "''o1'' \<noteq> []" by simp
  have h3: "user pending_order = u_id owner" by (simp add: pending_order_def owner_def)
  have h4: "\<not> isPaid pending_order" by (simp add: pending_order_def)
  have h5: "status pending_order \<noteq> ''cancelled''" by (simp add: pending_order_def)
  have h6: "razorpayOrderId pending_order = Some ''order_A''" by (simp add: pending_order_def)
  have h7: "orders_create granting_gateway (formatAmountForRazorpay (totalPrice pending_order))
        (orderNumber pending_order) = Some ''order_B''"
    by (simp add: granting_gateway_def)
  from createRazorpayOrder_rebinds [OF h1 h2 h3 h4 h5 h6 h7] h1 h2 h3 h4 h5 h6 h7
  show ?thesis by blast
qed

text \<open>
  Against claim C4 as stated (a second call is rejected): the pending order is bound to
  \<open>order_A\<close>, the call succeeds and the stored order is bound to \<open>order_B\<close>.
\<close>

theorem createRazorpayOrder_rebinds_counterexample:
  "razorpayOrderId pending_order = Some ''order_A''
   \<and> isPaid pending_order = False \<and> status pending_order = ''pending''
   \<and> createRazorpayOrder granting_gateway owner (Some ''o1'') (store_of pending_order)
      = (Inr ''order_B'', store_of (pending_order\<lparr>razorpayOrderId := Some ''order_B''\<rparr>))"
  by (simp add: createRazorpayOrder_def run_defs)

section \<open>Webhook\<close>





text \<open>
  Claim C5: when the order that a \<open>payment.captured\<close> event resolves to is already paid,
  handling the event leaves the whole store as it was: every field of every order, and
  the notifications. This holds for the handler and for the dispatch of the event.
\<close>

theorem payment_captured_on_paid_order_noop:
  assumes "findOneByRazorpayOrderId (pay_order_id payment) s = Some ord" and "isPaid ord"
  shows "handlePaymentCaptured now payment s = s
       \<and> dispatchEvent now \<lparr>ev_event = Some ''payment.captured'', ev_payment = Some payment,
            ev_refund = r, ev_order = e\<rparr> s = (Inr (), s)"
  using assms by (simp add: handlePaymentCaptured_def dispatchEvent_def)

text \<open>The theorem at the pending order once paid, for a capture of another payment.\<close>

theorem payment_captured_on_paid_order_noop_witness:
  "findOneByRazorpayOrderId (pay_order_id (captured_payment ''pay_2''))
       (store_of (pending_order\<lparr>isPaid := True, paidAt := Some 100\<rparr>))
     = Some (pending_order\<lparr>isPaid := True, paidAt := Some 100\<rparr>)
   \<and> isPaid (pending_order\<lparr>isPaid := True, paidAt := Some 100\<rparr>)
   \<and> handlePaymentCaptured 200 (captured_payment ''pay_2'')
        (store_of (pending_order\<lparr>isPaid := True, paidAt := Some 100\<rparr>))
     = store_of (pending_order\<lparr>isPaid := True, paidAt := Some 100\<rparr>)"
proof -
  have h1: "findOneByRazorpayOrderId (pay_order_id (captured_payment ''pay_2''))
       (store_of (pending_order\<lparr>isPaid := True, paidAt := Some 100\<rparr>))
     = Some (pending_order\<lparr>isPaid := True, paidAt := Some 100\<rparr>)"
    by (simp add: run_defs)
  have h2: "isPaid (pending_order\<lparr>isPaid := True, paidAt := Some 100\<rparr>)" by simp
  from payment_captured_on_paid_order_noop [OF h1 h2] h1 h2 show ?thesis by blast
qed

text \<open>
  Claim C8 says that handling a \<open>payment.failed\<close> event records the failure reason (error
  code and description) in \<open>paymentResult\<close>. The handler puts both into the object it
  assigns, but the schema's \<open>paymentResult\<close> has no such fields, so they are not kept.
  The run: the pending order after a failed payment with code \<open>BAD_REQUEST_ERROR\<close> is
  cancelled, unpaid, with \<open>paidAt\<close> unset and a \<open>paymentResult\<close> of the six declared
  fields; the store is the same as after the event with no error code and no description.
\<close>

theorem handlePaymentFailed_drops_reason:
  "handlePaymentFailed 100 (failed_payment ''pay_1'') (store_of pending_order)
   = \<lparr>orders = [pending_order\<lparr>status := ''cancelled'',
         paymentResult := \<lparr>pr_id = Some ''pay_1'', pr_status = Some ''failed'',
            pr_update_time = Some 100, pr_email_address = Some ''u1@example.com'',
            pr_razorpay_order_id = Some ''order_A'', pr_razorpay_payment_id = Some ''pay_1''\<rparr>\<rparr>],
      notifications = [\<lparr>n_user = ''u1'', n_type = ''payment_failed'', n_order = ''o1''\<rparr>]\<rparr>
   \<and> handlePaymentFailed 100 (failed_payment ''pay_1'') (store_of pending_order)
   = handlePaymentFailed 100
       ((failed_payment ''pay_1'')\<lparr>pay_error_code := None, pay_error_description := None\<rparr>)
       (store_of pending_order)"
  by (simp add: handlePaymentFailed_def run_defs Let_def)

section \<open>Cancellation and refunds\<close>

text \<open>
  The dedicated cancel operation rejects a delivered and an already cancelled order and
  leaves the store as it was.
\<close>

lemma cancelOrder_guard:
  assumes "findById i s = Some ord" and "status ord = ''delivered'' \<or> status ord = ''cancelled''"
  shows "\<exists>c m. cancelOrder admins ru i s = (Inl (ApiError c m), s)"
  using assms by (auto simp: cancelOrder_def)

text \<open>
  Claim C6 says that cancelling a delivered order, and cancelling a cancelled order, is
  rejected by every operation that can set the status to \<open>cancelled\<close>.
  \<^verbatim>\<open>cancelOrder\<close> has both checks; \<^verbatim>\<open>updateOrderStatus\<close> has neither. The run: the
  status-transition operation is asked for \<open>cancelled\<close> on a delivered, paid order and on
  a cancelled order; both calls succeed, the delivered order becomes cancelled with a
  pending refund, and the owner is notified of a cancellation each time.
\<close>

theorem updateOrderStatus_cancels_delivered:
  "updateOrderStatus 200 ''o1'' (Some ''cancelled'')
     (store_of (pending_order\<lparr>isPaid := True, paidAt := Some 100, status := ''delivered''\<rparr>))
   = (Inr (pending_order\<lparr>isPaid := True, paidAt := Some 100, status := ''cancelled'',
             refundStatus := Some ''pending''\<rparr>),
      \<lparr>orders = [pending_order\<lparr>isPaid := True, paidAt := Some 100, status := ''cancelled'',
             refundStatus := Some ''pending''\<rparr>],
       notifications = [\<lparr>n_user = ''u1'', n_type = ''order_cancelled'', n_order = ''o1''\<rparr>]\<rparr>)
   \<and> updateOrderStatus 200 ''o1'' (Some ''cancelled'')
     (store_of (pending_order\<lparr>status := ''cancelled''\<rparr>))
   = (Inr (pending_order\<lparr>status := ''cancelled''\<rparr>),
      \<lparr>orders = [pending_order\<lparr>status := ''cancelled''\<rparr>],
       notifications = [\<lparr>n_user = ''u1'', n_type = ''order_cancelled'', n_order = ''o1''\<rparr>]\<rparr>)"
  by (simp add: updateOrderStatus_def validStatuses_def run_defs Let_def)

text \<open>
  Claim C7, as the code has it: the gateway-backed \<^verbatim>\<open>processRefund\<close> is rejected, with
  the store left as it was, whenever the order is not paid or carries no gateway payment
  id in \<open>paymentResult\<close>; the admin \<^verbatim>\<open>processRefund\<close> of the order controller is
  rejected, with the store left as it was, whenever the order is not paid or already has
  a completed refund; and once an admin refund of a cancelled, paid order has succeeded,
  every further admin refund of that order is rejected.
\<close>

theorem refund_rejections:
  assumes "findById i s = Some ord"
  shows "(\<not> isPaid ord \<or> \<not> truthy (pr_razorpay_payment_id (paymentResult ord)) \<longrightarrow>
            (\<exists>m. processRefund gw now ru (Some i) refundAmount reason s
                    = (Inl (ApiError 400 m), s)))
       \<and> (\<not> isPaid ord \<or> refundStatus ord = Some ''completed'' \<longrightarrow>
            (\<exists>m. processRefund_order now ru i refundAmount s = (Inl (ApiError 400 m), s)))
       \<and> (status ord = ''cancelled'' \<and> isPaid ord \<and> refundStatus ord \<noteq> Some ''completed'' \<longrightarrow>
            (\<exists>ord' s'. processRefund_order now ru i refundAmount s = (Inr ord', s')
               \<and> refundStatus ord' = Some ''completed''
               \<and> (\<forall>now' ru' refundAmount'. \<exists>m.
                     processRefund_order now' ru' i refundAmount' s'
                       = (Inl (ApiError 400 m), s'))))"
proof (intro conjI impI)
  assume "\<not> isPaid ord \<or> \<not> truthy (pr_razorpay_payment_id (paymentResult ord))"
  with assms show "\<exists>m. processRefund gw now ru (Some i) refundAmount reason s
                    = (Inl (ApiError 400 m), s)"
    by (auto simp: processRefund_def truthy_def split: option.splits)
next
  assume "\<not> isPaid ord \<or> refundStatus ord = Some ''completed''"
  with assms show "\<exists>m. processRefund_order now ru i refundAmount s = (Inl (ApiError 400 m), s)"
    by (auto simp: processRefund_order_def)
next
  assume h: "status ord = ''cancelled'' \<and> isPaid ord \<and> refundStatus ord \<noteq> Some ''completed''"
  define ord' where "ord' = ord\<lparr>refundStatus := Some ''completed'',
       refundDetails :=
         \<lparr>rd_amount = Some (num_or refundAmount (totalPrice ord)),
          rd_id = None, rd_status = None, rd_processedAt = Some now,
          rd_processedBy = Some (u_id ru), rd_reason = None,
          rd_razorpayRefundId = None\<rparr>\<rparr>"
  define s' where "s' = pushNotification (user ord') ''refund_processed'' (oid ord') (save ord' s)"
  have oi: "oid ord' = i" using findById_oid [OF assms] by (simp add: ord'_def)
  have run: "processRefund_order now ru i refundAmount s = (Inr ord', s')"
    using assms h by (simp add: processRefund_order_def ord'_def s'_def Let_def)
  have f: "findById i s' = Some ord'"
    using findById_save [of ord' s ord] assms oi by (simp add: s'_def)
  have c: "refundStatus ord' = Some ''completed''" by (simp add: ord'_def)
  have again: "\<exists>m. processRefund_order now' ru' i refundAmount' s' = (Inl (ApiError 400 m), s')"
    for now' ru' refundAmount'
    using f c by (auto simp: processRefund_order_def)
  show "\<exists>ord' s'. processRefund_order now ru i refundAmount s = (Inr ord', s')
               \<and> refundStatus ord' = Some ''completed''
               \<and> (\<forall>now' ru' refundAmount'. \<exists>m.
                     processRefund_order now' ru' i refundAmount' s'
                       = (Inl (ApiError 400 m), s'))"
    using run c again by blast
qed

text \<open>
  The theorem at the pending order (unpaid, so both operations reject) and at the same
  order once paid and cancelled (the admin refund succeeds once).
\<close>

theorem refund_rejections_witness:
  "findById ''o1'' (store_of pending_order) = Some pending_order \<and> \<not> isPaid pending_order
   \<and> (\<exists>m. processRefund granting_gateway 300 admin (Some ''o1'') None None
             (store_of pending_order) = (Inl (ApiError 400 m), store_of pending_order))
   \<and> (\<exists>m. processRefund_order 300 admin ''o1'' None (store_of pending_order)
             = (Inl (ApiError 400 m), store_of pending_order))
   \<and> findById ''o1'' (store_of (pending_order\<lparr>isPaid := True, status := ''cancelled''\<rparr>))
       = Some (pending_order\<lparr>isPaid := True, status := ''cancelled''\<rparr>)
   \<and> (\<exists>ord' s'. processRefund_order 300 admin ''o1'' None
             (store_of (pending_order\<lparr>isPaid := True, status := ''cancelled''\<rparr>)) = (Inr ord', s')
         \<and> refundStatus ord' = Some ''completed''
         \<and> (\<exists>m. processRefund_order 400 admin ''o1'' None s' = (Inl (ApiError 400 m), s')))"
proof -
  have h1: "findById ''o1'' (store_of pending_order) = Some pending_order"
    by (simp add: run_defs)
  have h2: "\<not> isPaid pending_order" by (simp add: pending_order_def)
  have h3: "findById ''o1'' (store_of (pending_order\<lparr>isPaid := True, status := ''cancelled''\<rparr>))
       = Some (pending_order\<lparr>isPaid := True, status := ''cancelled''\<rparr>)"
    by (simp add: run_defs)
  have h4: "status (pending_order\<lparr>isPaid := True, status := ''cancelled''\<rparr>) = ''cancelled''
      \<and> isPaid (pending_order\<lparr>isPaid := True, status := ''cancelled''\<rparr>)
      \<and> refundStatus (pending_order\<lparr>isPaid := True, status := ''cancelled''\<rparr>)
          \<noteq> Some ''completed''"
    by (simp add: pending_order_def)
  from refund_rejections [OF h1, of granting_gateway 300 admin None None] h2
  have a: "\<exists>m. processRefund granting_gateway 300 admin (Some ''o1'') None None
             (store_of pending_order) = (Inl (ApiError 400 m), store_of pending_order)"
    and b: "\<exists>m. processRefund_order 300 admin ''o1'' None (store_of pending_order)
             = (Inl (ApiError 400 m), store_of pending_order)"
    by blast+
  from refund_rejections [OF h3, of granting_gateway 300 admin None None] h4
  have c: "\<exists>ord' s'. processRefund_order 300 admin ''o1'' None
             (store_of (pending_order\<lparr>isPaid := True, status := ''cancelled''\<rparr>)) = (Inr ord', s')
         \<and> refundStatus ord' = Some ''completed''
         \<and> (\<exists>m. processRefund_order 400 admin ''o1'' None s' = (Inl (ApiError 400 m), s'))"
    by blast
  from h1 h2 a b h3 c show ?thesis by blast
qed

text \<open>
  Against claim C7 as stated (a refund is rejected when \<open>paymentResult\<close> carries no
  gateway payment id, at every entry point): the admin refund of a paid, cancelled
  cash-on-delivery order, which has no gateway payment id, succeeds.
\<close>

theorem processRefund_order_without_payment_id_counterexample:
  "pr_razorpay_payment_id (paymentResult (pending_order\<lparr>paymentMethod := ''cod'',
       isPaid := True, paidAt := Some 100, status := ''cancelled'',
       refundStatus := Some ''pending''\<rparr>)) = None
   \<and> map_sum id refundStatus
        (fst (processRefund_order 300 admin ''o1'' None
               (store_of (pending_order\<lparr>paymentMethod := ''cod'',
                  isPaid := True, paidAt := Some 100, status := ''cancelled'',
                  refundStatus := Some ''pending''\<rparr>))))
      = Inr (Some ''completed'')"
  by (simp add: processRefund_order_def run_defs Let_def)

section \<open>Cash on delivery\<close>

text \<open>
  Claim C10: \<^verbatim>\<open>markCodOrderAsPaid\<close> takes effect at most once per order. It is rejected
  with status 400, the store left as it was, when the order's payment method is not
  \<open>cod\<close> or the order is already paid; for an unpaid \<open>cod\<close> order it succeeds and sets
  \<open>isPaid = True\<close>, \<open>paidAt = now\<close> and a \<open>paymentResult\<close> whose id is \<open>COD\<close> on
  the order, whose other fields stay; in the store that order, and no other, is replaced
  by the updated one, the notifications grow by one \<open>payment_successful\<close> notification
  to the owner, and every later call for that order is rejected with the store left as
  it was.
\<close>

theorem markCodOrderAsPaid_once:
  assumes "findById i s = Some ord"
  shows "(paymentMethod ord \<noteq> ''cod'' \<or> isPaid ord \<longrightarrow>
           (\<exists>m. markCodOrderAsPaid now i s = (Inl (ApiError 400 m), s)))
       \<and> (paymentMethod ord = ''cod'' \<and> \<not> isPaid ord \<longrightarrow>
           (let ord' = ord\<lparr>isPaid := True, paidAt := Some now,
                  paymentResult :=
                    \<lparr>pr_id = Some ''COD'', pr_status = Some ''paid'',
                     pr_update_time = Some now, pr_email_address = Some [],
                     pr_razorpay_order_id = None, pr_razorpay_payment_id = None\<rparr>\<rparr>;
                s' = s\<lparr>orders := map (\<lambda>x. if oid x = oid ord then ord' else x) (orders s),
                       notifications := notifications s
                         @ [\<lparr>n_user = user ord, n_type = ''payment_successful'',
                             n_order = oid ord\<rparr>]\<rparr>
            in markCodOrderAsPaid now i s = (Inr ord', s')
               \<and> findById i s' = Some ord'
               \<and> (\<forall>now'. markCodOrderAsPaid now' i s'
                     = (Inl (ApiError 400 ''Order is already marked as paid''), s'))))"
proof (intro conjI impI)
  assume "paymentMethod ord \<noteq> ''cod'' \<or> isPaid ord"
  with assms show "\<exists>m. markCodOrderAsPaid now i s = (Inl (ApiError 400 m), s)"
    by (auto simp: markCodOrderAsPaid_def)
next
  assume h: "paymentMethod ord = ''cod'' \<and> \<not> isPaid ord"
  define ord' where "ord' = ord\<lparr>isPaid := True, paidAt := Some now,
      paymentResult :=
        \<lparr>pr_id = Some ''COD'', pr_status = Some ''paid'',
         pr_update_time = Some now, pr_email_address = Some [],
         pr_razorpay_order_id = None, pr_razorpay_payment_id = None\<rparr>\<rparr>"
  define s' where "s' = s\<lparr>orders := map (\<lambda>x. if oid x = oid ord then ord' else x) (orders s),
      notifications := notifications s
        @ [\<lparr>n_user = user ord, n_type = ''payment_successful'', n_order = oid ord\<rparr>]\<rparr>"
  have oo: "oid ord' = oid ord" "user ord' = user ord" by (simp_all add: ord'_def)
  have oi: "oid ord' = i" using findById_oid [OF assms] by (simp add: ord'_def)
  have st: "s' = sendUserNotification (user ord') ''payment_successful'' (oid ord') (save ord' s)"
    by (simp add: s'_def sendUserNotification_def save_def oo)
  have run: "markCodOrderAsPaid now i s = (Inr ord', s')"
    using assms h unfolding st
    by (simp add: markCodOrderAsPaid_def ord'_def Let_def castPaymentResult_def
        payment_result.truncate_def)
  have f: "findById i s' = Some ord'"
    using findById_save [of ord' s ord] assms oi by (simp add: st)
  have p: "isPaid ord'" "paymentMethod ord' = ''cod''" using h by (simp_all add: ord'_def)
  have again: "markCodOrderAsPaid now' i s'
      = (Inl (ApiError 400 ''Order is already marked as paid''), s')" for now'
    using f p by (simp add: markCodOrderAsPaid_def)
  show "let ord' = ord\<lparr>isPaid := True, paidAt := Some now,
                  paymentResult :=
                    \<lparr>pr_id = Some ''COD'', pr_status = Some ''paid'',
                     pr_update_time = Some now, pr_email_address = Some [],
                     pr_razorpay_order_id = None, pr_razorpay_payment_id = None\<rparr>\<rparr>;
                s' = s\<lparr>orders := map (\<lambda>x. if oid x = oid ord then ord' else x) (orders s),
                       notifications := notifications s
                         @ [\<lparr>n_user = user ord, n_type = ''payment_successful'',
                             n_order = oid ord\<rparr>]\<rparr>
            in markCodOrderAsPaid now i s = (Inr ord', s')
               \<and> findById i s' = Some ord'
               \<and> (\<forall>now'. markCodOrderAsPaid now' i s'
                     = (Inl (ApiError 400 ''Order is already marked as paid''), s'))"
    using run f again unfolding Let_def ord'_def s'_def by simp
qed

text \<open>
  The theorem at the pending order (not a \<open>cod\<close> order: rejected) and at the same order
  with payment method \<open>cod\<close> (marked paid once, rejected afterwards).
\<close>

theorem markCodOrderAsPaid_once_witness:
  "findById ''o1'' (store_of pending_order) = Some pending_order
   \<and> paymentMethod pending_order \<noteq> ''cod''
   \<and> (\<exists>m. markCodOrderAsPaid 100 ''o1'' (store_of pending_order)
             = (Inl (ApiError 400 m), store_of pending_order))
   \<and> findById ''o1'' (store_of (pending_order\<lparr>paymentMethod := ''cod''\<rparr>))
       = Some (pending_order\<lparr>paymentMethod := ''cod''\<rparr>)
   \<and> markCodOrderAsPaid 100 ''o1'' (store_of (pending_order\<lparr>paymentMethod := ''cod''\<rparr>))
       = (Inr (pending_order\<lparr>paymentMethod := ''cod'', isPaid := True, paidAt := Some 100,
                 paymentResult := \<lparr>pr_id = Some ''COD'', pr_status = Some ''paid'',
                    pr_update_time = Some 100, pr_email_address = Some [],
                    pr_razorpay_order_id = None, pr_razorpay_payment_id = None\<rparr>\<rparr>),
          \<lparr>orders = [pending_order\<lparr>paymentMethod := ''cod'', isPaid := True,
                 paidAt := Some 100,
                 paymentResult := \<lparr>pr_id = Some ''COD'', pr_status = Some ''paid'',
                    pr_update_time = Some 100, pr_email_address = Some [],
                    pr_razorpay_order_id = None, pr_razorpay_payment_id = None\<rparr>\<rparr>],
           notifications
             = [\<lparr>n_user = ''u1'', n_type = ''payment_successful'', n_order = ''o1''\<rparr>]\<rparr>)
   \<and> markCodOrderAsPaid 200 ''o1''
         \<lparr>orders = [pending_order\<lparr>paymentMethod := ''cod'', isPaid := True,
                 paidAt := Some 100,
                 paymentResult := \<lparr>pr_id = Some ''COD'', pr_status = Some ''paid'',
                    pr_update_time = Some 100, pr_email_address = Some [],
                    pr_razorpay_order_id = None, pr_razorpay_payment_id = None\<rparr>\<rparr>],
           notifications
             = [\<lparr>n_user = ''u1'', n_type = ''payment_successful'', n_order = ''o1''\<rparr>]\<rparr>
       = (Inl (ApiError 400 ''Order is already marked as paid''),
          \<lparr>orders = [pending_order\<lparr>paymentMethod := ''cod'', isPaid := True,
                 paidAt := Some 100,
                 paymentResult := \<lparr>pr_id = Some ''COD'', pr_status = Some ''paid'',
                    pr_update_time = Some 100, pr_email_address = Some [],
                    pr_razorpay_order_id = None, pr_razorpay_payment_id = None\<rparr>\<rparr>],
           notifications
             = [\<lparr>n_user = ''u1'', n_type = ''payment_successful'', n_order = ''o1''\<rparr>]\<rparr>)"
proof -
  have h1: "findById ''o1'' (store_of pending_order) = Some pending_order"
    by (simp add: run_defs)
  have h2: "paymentMethod pending_order \<noteq> ''cod''" by (simp add: pending_order_def)
  have h3: "findById ''o1'' (store_of (pending_order\<lparr>paymentMethod := ''cod''\<rparr>))
       = Some (pending_order\<lparr>paymentMethod := ''cod''\<rparr>)"
    by (simp add: run_defs)
  have h4: "paymentMethod (pending_order\<lparr>paymentMethod := ''cod''\<rparr>) = ''cod''
      \<and> \<not> isPaid (pending_order\<lparr>paymentMethod := ''cod''\<rparr>)"
    by (simp add: pending_order_def)
  from markCodOrderAsPaid_once [OF h1, of 100] h2
  have a: "\<exists>m. markCodOrderAsPaid 100 ''o1'' (store_of pending_order)
             = (Inl (ApiError 400 m), store_of pending_order)"
    by blast
  from markCodOrderAsPaid_once [OF h3, of 100] h4
  have b: "let ord' = pending_order\<lparr>paymentMethod := ''cod'', isPaid := True,
                 paidAt := Some 100,
                 paymentResult := \<lparr>pr_id = Some ''COD'', pr_status = Some ''paid'',
                    pr_update_time = Some 100, pr_email_address = Some [],
                    pr_razorpay_order_id = None, pr_razorpay_payment_id = None\<rparr>\<rparr>;
               s' = \<lparr>orders = [ord'],
                  notifications
                    = [\<lparr>n_user = ''u1'', n_type = ''payment_successful'', n_order = ''o1''\<rparr>]\<rparr>
           in markCodOrderAsPaid 100 ''o1'' (store_of (pending_order\<lparr>paymentMethod := ''cod''\<rparr>))
                = (Inr ord', s')
              \<and> markCodOrderAsPaid 200 ''o1'' s'
                = (Inl (ApiError 400 ''Order is already marked as paid''), s')"
    by (simp add: Let_def run_defs)
  from h1 h2 a h3 b show ?thesis unfolding Let_def by blast
qed

section \<open>Money round trip\<close>

text \<open>
  The exponent that \<open>ilog2\<close> computes is not above the binary logarithm of its argument.
\<close>

lemma ilog2_le:
  assumes "x \<noteq> 0"
  shows "2 powi (ilog2 x) \<le> \<bar>x\<bar>"
proof -
  obtain p q where pq: "quotient_of \<bar>x\<bar> = (p, q)" by (cases "quotient_of \<bar>x\<bar>")
  have q: "0 < q" using pq quotient_of_denom_pos by blast
  have xpq: "\<bar>x\<bar> = of_int p / of_int q" using pq by (simp add: quotient_of_div)
  have "0 < \<bar>x\<bar>" using assms by simp
  then have p: "0 < p" using xpq q by (simp add: zero_less_divide_iff)
  define d where "d = bitlen p - bitlen q"
  have il: "ilog2 x = (if 2 powi d \<le> \<bar>x\<bar> then d else d - 1)"
    by (simp add: ilog2_def pq d_def Let_def)
  have bp: "1 \<le> bitlen p" using p bitlen_eq_zero_iff [of p] bitlen_nonneg [of p] by linarith
  have bq: "1 \<le> bitlen q" using q bitlen_eq_zero_iff [of q] bitlen_nonneg [of q] by linarith
  have lo: "(2::int) ^ nat (bitlen p - 1) \<le> p" using bitlen_bounds [OF p] by simp
  have hi: "q < (2::int) ^ nat (bitlen q)" using bitlen_bounds [OF q] by simp
  have lo': "(2::rat) powi (bitlen p - 1) \<le> of_int p"
  proof -
    have "(of_int ((2::int) ^ nat (bitlen p - 1)) :: rat) \<le> of_int p"
      using lo of_int_le_iff by blast
    then show ?thesis using bp by (simp add: power_int_def)
  qed
  have hi': "(of_int q :: rat) \<le> 2 powi (bitlen q)"
  proof -
    have "(of_int q :: rat) \<le> of_int ((2::int) ^ nat (bitlen q))"
      using hi of_int_le_iff [of q "2 ^ nat (bitlen q)", where ?'a = rat] by linarith
    then show ?thesis using bq by (simp add: power_int_def)
  qed
  have "(2::rat) powi (d - 1) = 2 powi (bitlen p - 1) / 2 powi (bitlen q)"
    by (simp add: d_def power_int_diff)
  also have "\<dots> \<le> of_int p / 2 powi (bitlen q)"
    using lo' by (simp add: divide_right_mono)
  also have "\<dots> \<le> of_int p / of_int q"
    using hi' p q by (simp add: frac_le)
  finally have "(2::rat) powi (d - 1) \<le> \<bar>x\<bar>" using xpq by simp
  then show ?thesis using il by auto
qed

lemma round_half_even_err: "\<bar>of_int (round_half_even y) - y\<bar> \<le> 1 / 2"
proof -
  have "of_int \<lfloor>y\<rfloor> \<le> y" "y < of_int \<lfloor>y\<rfloor> + 1" by linarith+
  then show ?thesis
    by (auto simp: round_half_even_def Let_def abs_le_iff)
qed

text \<open>
  Rounding a number in the normal range to a double changes it by at most the fraction
  \<open>2 ^ - 53\<close> of its magnitude.
\<close>

lemma double_of_err:
  assumes "2 powi (- 1022) \<le> \<bar>x\<bar>"
  shows "\<bar>double_of x - x\<bar> \<le> \<bar>x\<bar> / 2 ^ 53"
proof -
  have x0: "x \<noteq> 0" using assms
    by (metis abs_zero not_le zero_less_numeral zero_less_power_int)
  define u :: rat where "u = 2 powi (max (ilog2 x) (- 1022) - 52)"
  have upos: "0 < u" by (simp add: u_def)
  have fx: "double_of x = of_int (round_half_even (x / u)) * u"
    using x0 by (simp add: double_of_def u_def Let_def)
  have "(2::rat) powi (max (ilog2 x) (- 1022)) \<le> \<bar>x\<bar>"
    using assms ilog2_le [OF x0] by (simp add: max_def)
  then have "2 powi (max (ilog2 x) (- 1022)) / 2 ^ 52 \<le> \<bar>x\<bar> / 2 ^ 52"
    by (simp add: divide_right_mono)
  moreover have "u = 2 powi (max (ilog2 x) (- 1022)) / 2 ^ 52"
    unfolding u_def by (simp add: power_int_diff)
  ultimately have ule: "u \<le> \<bar>x\<bar> / 2 ^ 52" by simp
  have "double_of x - x = (of_int (round_half_even (x / u)) - x / u) * u"
    using upos by (simp add: fx field_simps)
  then have "\<bar>double_of x - x\<bar> = \<bar>of_int (round_half_even (x / u)) - x / u\<bar> * u"
    using upos by (simp add: abs_mult)
  also have "\<dots> \<le> (1 / 2) * u"
    using round_half_even_err [of "x / u"] upos by (simp add: mult_right_mono)
  also have "\<dots> \<le> (1 / 2) * (\<bar>x\<bar> / 2 ^ 52)"
    using ule by simp
  also have "\<dots> = \<bar>x\<bar> / 2 ^ 53" by simp
  finally show ?thesis .
qed

lemma tiny_le: "(2::rat) powi (- 1022) \<le> 1 / 128"
proof -
  have "(2::rat) powi (- 1022) \<le> 2 powi (- 7)"
    by (rule power_int_increasing) simp_all
  then show ?thesis by (simp add: power_int_minus)
qed

text \<open>
  The conversion to minor units recovers the number of minor units \<open>k\<close> from the double
  nearest to \<open>k / 100\<close>, for \<open>k\<close> up to \<open>2 ^ 50\<close> in magnitude.
\<close>

lemma to_minor_units_exact:
  assumes k: "\<bar>k\<bar> \<le> 2 ^ 50"
  shows "formatAmountForRazorpay (double_of (of_int k / 100)) = k"
proof (cases "k = 0")
  case True
  have "\<lfloor>(1::rat) / 2\<rfloor> = 0" by (rule floor_unique) simp_all
  with True show ?thesis
    by (simp add: formatAmountForRazorpay_def double_of_def Math_round_def)
next
  case False
  define K :: rat where "K = of_int k"
  define a where "a = double_of (K / 100)"
  define y where "y = a * 100"
  have K1: "1 \<le> \<bar>K\<bar>" using False by (simp add: K_def flip: of_int_abs)
  have Kb: "\<bar>K\<bar> \<le> 2 ^ 50"
  proof -
    have "(of_int \<bar>k\<bar> :: rat) \<le> of_int (2 ^ 50)" using k of_int_le_iff by blast
    then show ?thesis by (simp add: K_def)
  qed
  have "2 powi (- 1022) \<le> \<bar>K / 100\<bar>" using tiny_le K1 by simp
  from double_of_err [OF this] have ea: "\<bar>a - K / 100\<bar> \<le> \<bar>K\<bar> / 100 / 2 ^ 53"
    by (simp add: a_def)
  have "y - K = (a - K / 100) * 100" by (simp add: y_def algebra_simps)
  then have "\<bar>y - K\<bar> = \<bar>(a - K / 100) * 100\<bar>" by (rule arg_cong)
  then have "\<bar>y - K\<bar> = \<bar>a - K / 100\<bar> * 100" by (simp only: abs_mult abs_numeral)
  with ea have ey: "\<bar>y - K\<bar> \<le> \<bar>K\<bar> / 2 ^ 53" by simp
  have ylo: "\<bar>K\<bar> - \<bar>K\<bar> / 2 ^ 53 \<le> \<bar>y\<bar>" using ey by linarith
  have yhi: "\<bar>y\<bar> \<le> \<bar>K\<bar> + \<bar>K\<bar> / 2 ^ 53" using ey by linarith
  have "2 powi (- 1022) \<le> \<bar>y\<bar>" using tiny_le K1 ylo by simp
  from double_of_err [OF this] have "\<bar>double_of y - y\<bar> \<le> \<bar>y\<bar> / 2 ^ 53" .
  also have "\<dots> \<le> (\<bar>K\<bar> + \<bar>K\<bar> / 2 ^ 53) / 2 ^ 53"
    using yhi by (simp add: divide_right_mono)
  finally have ef: "\<bar>double_of y - y\<bar> \<le> (\<bar>K\<bar> + \<bar>K\<bar> / 2 ^ 53) / 2 ^ 53" .
  have "\<bar>double_of y - K\<bar> \<le> \<bar>double_of y - y\<bar> + \<bar>y - K\<bar>" by linarith
  also have "\<dots> \<le> (\<bar>K\<bar> + \<bar>K\<bar> / 2 ^ 53) / 2 ^ 53 + \<bar>K\<bar> / 2 ^ 53"
    using ef ey by linarith
  also have "\<dots> \<le> 3 * \<bar>K\<bar> / 2 ^ 53" by (simp add: field_simps)
  also have "\<dots> \<le> 3 * 2 ^ 50 / 2 ^ 53" using Kb by (simp add: divide_right_mono)
  also have "\<dots> < 1 / 2" by simp
  finally have close: "\<bar>double_of y - K\<bar> < 1 / 2" .
  have "\<lfloor>double_of y + 1 / 2\<rfloor> = k"
  proof (rule floor_unique)
    show "of_int k \<le> double_of y + 1 / 2" using close unfolding K_def by linarith
    show "double_of y + 1 / 2 < of_int k + 1" using close unfolding K_def by linarith
  qed
  then show ?thesis
    by (simp add: formatAmountForRazorpay_def Math_round_def y_def a_def K_def)
qed

text \<open>
  Claim C9, as the code has it on doubles: for every amount of two decimal places whose
  number of minor units \<open>k\<close> is at most \<open>2 ^ 50\<close> in magnitude, the amount being the
  double nearest to \<open>k / 100\<close>, \<^verbatim>\<open>formatAmountForRazorpay\<close> gives exactly \<open>k\<close> and
  \<^verbatim>\<open>formatAmountFromRazorpay\<close> of that gives the amount back.
\<close>

theorem money_round_trip:
  assumes "\<bar>k\<bar> \<le> 2 ^ 50"
  shows "formatAmountForRazorpay (double_of (of_int k / 100)) = k
       \<and> formatAmountFromRazorpay (of_int (formatAmountForRazorpay (double_of (of_int k / 100))))
           = double_of (of_int k / 100)"
  using to_minor_units_exact [OF assms] by (simp add: formatAmountFromRazorpay_def)

text \<open>The theorem at the amount 709.97, that is 70997 minor units.\<close>

theorem money_round_trip_witness:
  "\<bar>70997 :: int\<bar> \<le> 2 ^ 50
   \<and> formatAmountForRazorpay (double_of (of_int 70997 / 100)) = 70997
   \<and> formatAmountFromRazorpay (of_int (formatAmountForRazorpay (double_of (of_int 70997 / 100))))
       = double_of (of_int 70997 / 100)"
proof -
  have h: "\<bar>70997 :: int\<bar> \<le> 2 ^ 50" by simp
  from money_round_trip [OF h] h show ?thesis by blast
qed

text \<open>
  Against claim C9 as stated (every amount of two decimal places): the amount
  43648287890341.59 is the double 43648287890341.59375; times 100 it rounds to the double
  4364828789034159.5, which \<^verbatim>\<open>Math.round\<close> takes to 4364828789034160, and dividing by
  100 gives the double nearest to 43648287890341.60, another one.
\<close>

theorem money_round_trip_counterexample:
  "formatAmountForRazorpay (double_of (4364828789034159 / 100)) = 4364828789034160
   \<and> formatAmountFromRazorpay (of_int (formatAmountForRazorpay
        (double_of (4364828789034159 / 100)))) \<noteq> double_of (4364828789034159 / 100)"
  by code_simp

end
